theory Spec2Isabelle
  imports Complex_Main "HOL-Library.AList"
begin

section \<open>The Binance/Discord trading bot: data model\<close>

text \<open>
  The embedding follows \<^verbatim>\<open>binance_discord_trading_bot.py\<close>. Python floats are
  modelled as reals: prices, quantities, percentages and budgets are finite numbers and
  arithmetic on them is exact (no rounding, no NaN, no infinity). Dictionaries are
  association lists with the operations of \<^verbatim>\<open>dict\<close> written out, so that the order of
  the entries and the uniqueness of the keys are visible. Every exception the source can
  raise on a path is a value of \<open>exn\<close>.
\<close>

datatype exn =
    IOError
  | ZeroDivisionError
  | KeyError
  | TypeError
  | RuntimeError
  | BinanceAPIException
  | NetworkError
  | CancelledError

record parameters =
  symbol :: string
  decrease_pct :: real
  increase_pct :: real
  tx_amount :: real
  allocated_budget :: real

record position =
  pos_symbol :: string
  quantity :: real
  buy_price :: real
  highest_price :: real
  entry_time :: string

record bot_state =
  params :: parameters
  remaining_budget :: real
  positions :: "(string \<times> position) list"
  last_reference_price :: "real option"
  running :: bool

text \<open>The defaults of the dataclasses \<^verbatim>\<open>Parameters\<close> and \<^verbatim>\<open>BotState\<close>.\<close>

definition Parameters :: parameters where
  "Parameters =
     \<lparr>symbol = ''BTCUSDT'', decrease_pct = 2 / 100, increase_pct = 3 / 100,
      tx_amount = 50, allocated_budget = 500\<rparr>"

definition BotState :: bot_state where
  "BotState =
     \<lparr>params = Parameters, remaining_budget = 0, positions = [],
      last_reference_price = None, running = False\<rparr>"

subsection \<open>The state document\<close>

text \<open>
  \<^verbatim>\<open>save_state\<close> builds a dictionary and hands it to \<^verbatim>\<open>json.dump\<close>;
  \<^verbatim>\<open>load_state\<close> reads the dictionary that \<^verbatim>\<open>json.load\<close> returns. The model
  stops at that dictionary: a value of \<open>json\<close>. The text encoding of the json library is
  not modelled.
\<close>

datatype json =
    JNull
  | JBool bool
  | JNum real
  | JStr string
  | JObj "(string \<times> json) list"

definition asdict_parameters :: "parameters \<Rightarrow> json" where
  "asdict_parameters p =
     JObj [(''symbol'', JStr (symbol p)),
           (''decrease_pct'', JNum (decrease_pct p)),
           (''increase_pct'', JNum (increase_pct p)),
           (''tx_amount'', JNum (tx_amount p)),
           (''allocated_budget'', JNum (allocated_budget p))]"

definition asdict_position :: "position \<Rightarrow> json" where
  "asdict_position v =
     JObj [(''symbol'', JStr (pos_symbol v)),
           (''quantity'', JNum (quantity v)),
           (''buy_price'', JNum (buy_price v)),
           (''highest_price'', JNum (highest_price v)),
           (''entry_time'', JStr (entry_time v))]"

definition json_of_ref :: "real option \<Rightarrow> json" where
  "json_of_ref r = (case r of None \<Rightarrow> JNull | Some x \<Rightarrow> JNum x)"

definition serializable :: "bot_state \<Rightarrow> json" where
  "serializable s =
     JObj [(''params'', asdict_parameters (params s)),
           (''remaining_budget'', JNum (remaining_budget s)),
           (''positions'', JObj (map (\<lambda>(k, v). (k, asdict_position v)) (positions s))),
           (''last_reference_price'', json_of_ref (last_reference_price s)),
           (''running'', JBool (running s))]"

text \<open>
  Reading a field of a typed record from a document. The records of the model are typed,
  so a value of another JSON type (which a Python dataclass would store as it is) is
  reported as \<open>TypeError\<close>.
\<close>

definition as_num :: "json \<Rightarrow> exn + real" where
  "as_num j = (case j of JNum x \<Rightarrow> Inr x | _ \<Rightarrow> Inl TypeError)"

definition as_str :: "json \<Rightarrow> exn + string" where
  "as_str j = (case j of JStr x \<Rightarrow> Inr x | _ \<Rightarrow> Inl TypeError)"

definition as_bool :: "json \<Rightarrow> exn + bool" where
  "as_bool j = (case j of JBool x \<Rightarrow> Inr x | _ \<Rightarrow> Inl TypeError)"

definition as_opt_num :: "json \<Rightarrow> exn + real option" where
  "as_opt_num j =
     (case j of JNull \<Rightarrow> Inr None | JNum x \<Rightarrow> Inr (Some x) | _ \<Rightarrow> Inl TypeError)"

definition as_obj :: "json \<Rightarrow> exn + (string \<times> json) list" where
  "as_obj j = (case j of JObj kvs \<Rightarrow> Inr kvs | _ \<Rightarrow> Inl TypeError)"

text \<open>Sequencing of steps that may raise: the first exception ends the computation.\<close>

definition bind_exn :: "exn + 'a \<Rightarrow> ('a \<Rightarrow> exn + 'b) \<Rightarrow> exn + 'b" where
  "bind_exn m f = (case m of Inl e \<Rightarrow> Inl e | Inr x \<Rightarrow> f x)"

text \<open>\<^verbatim>\<open>d.get(k, default)\<close> followed by the conversion of the value found.\<close>

definition get_or :: "(string \<times> json) list \<Rightarrow> string \<Rightarrow> (json \<Rightarrow> exn + 'a) \<Rightarrow> 'a \<Rightarrow> exn + 'a" where
  "get_or d k conv dflt = (case map_of d k of None \<Rightarrow> Inr dflt | Some j \<Rightarrow> conv j)"

text \<open>\<^verbatim>\<open>d[k]\<close> for a keyword argument without a default: a missing one is a TypeError.\<close>

definition get_req :: "(string \<times> json) list \<Rightarrow> string \<Rightarrow> (json \<Rightarrow> exn + 'a) \<Rightarrow> exn + 'a" where
  "get_req d k conv = (case map_of d k of None \<Rightarrow> Inl TypeError | Some j \<Rightarrow> conv j)"

text \<open>
  \<^verbatim>\<open>Parameters(**d)\<close>: an unexpected keyword is a TypeError, a missing one takes the
  default of the dataclass.
\<close>

definition Parameters_of :: "(string \<times> json) list \<Rightarrow> exn + parameters" where
  "Parameters_of d =
     (if \<not> set (map fst d) \<subseteq>
           set [''symbol'', ''decrease_pct'', ''increase_pct'', ''tx_amount'', ''allocated_budget'']
      then Inl TypeError
      else
        bind_exn (get_or d ''symbol'' as_str (symbol Parameters)) (\<lambda>sy.
        bind_exn (get_or d ''decrease_pct'' as_num (decrease_pct Parameters)) (\<lambda>de.
        bind_exn (get_or d ''increase_pct'' as_num (increase_pct Parameters)) (\<lambda>inc.
        bind_exn (get_or d ''tx_amount'' as_num (tx_amount Parameters)) (\<lambda>tx.
        bind_exn (get_or d ''allocated_budget'' as_num (allocated_budget Parameters)) (\<lambda>al.
          Inr \<lparr>symbol = sy, decrease_pct = de, increase_pct = inc, tx_amount = tx,
               allocated_budget = al\<rparr>))))))"

text \<open>\<^verbatim>\<open>Position(**v)\<close>: every field is required.\<close>

definition Position_of :: "json \<Rightarrow> exn + position" where
  "Position_of j =
     bind_exn (as_obj j) (\<lambda>d.
      if \<not> set (map fst d) \<subseteq>
           set [''symbol'', ''quantity'', ''buy_price'', ''highest_price'', ''entry_time'']
      then Inl TypeError
      else
        bind_exn (get_req d ''symbol'' as_str) (\<lambda>sy.
        bind_exn (get_req d ''quantity'' as_num) (\<lambda>q.
        bind_exn (get_req d ''buy_price'' as_num) (\<lambda>bp.
        bind_exn (get_req d ''highest_price'' as_num) (\<lambda>hp.
        bind_exn (get_req d ''entry_time'' as_str) (\<lambda>et.
          Inr \<lparr>pos_symbol = sy, quantity = q, buy_price = bp, highest_price = hp,
               entry_time = et\<rparr>))))))"

text \<open>The dictionary comprehension \<^verbatim>\<open>{k: Position(**v) for k, v in positions_raw.items()}\<close>.\<close>

fun positions_of :: "(string \<times> json) list \<Rightarrow> exn + (string \<times> position) list" where
  "positions_of [] = Inr []"
| "positions_of ((k, v) # kvs) =
     bind_exn (Position_of v) (\<lambda>p.
     bind_exn (positions_of kvs) (\<lambda>ps. Inr ((k, p) # ps)))"

text \<open>The branch of \<^verbatim>\<open>load_state\<close> that reads an existing file.\<close>

definition state_of_json :: "json \<Rightarrow> exn + bot_state" where
  "state_of_json raw =
     bind_exn (as_obj raw) (\<lambda>d.
     bind_exn (get_or d ''params'' as_obj []) (\<lambda>pd.
     bind_exn (Parameters_of pd) (\<lambda>ps.
     bind_exn (get_or d ''positions'' as_obj []) (\<lambda>positions_raw.
     bind_exn (positions_of positions_raw) (\<lambda>poss.
     bind_exn (get_or d ''remaining_budget'' as_num (allocated_budget ps)) (\<lambda>rb.
     bind_exn (get_or d ''last_reference_price'' as_opt_num None) (\<lambda>lr.
     bind_exn (get_or d ''running'' as_bool False) (\<lambda>ru.
        Inr \<lparr>params = ps, remaining_budget = rb, positions = poss,
             last_reference_price = lr, running = ru\<rparr>))))))))"

section \<open>The exchange, the disk and the running bot\<close>

text \<open>
  An order response of the exchange, as far as the bot reads it: the key \<^verbatim>\<open>fills\<close>
  (a list of partial fills), \<^verbatim>\<open>executedQty\<close> and \<^verbatim>\<open>cummulativeQuoteQty\<close>, each of
  which may be missing. The numbers are the responses' strings after \<^verbatim>\<open>float\<close>.
  A response is a dictionary with further keys (symbol, order id, status), so it is never
  empty and \<^verbatim>\<open>if order:\<close> is the test that an order was returned.
\<close>

record fill =
  f_price :: real
  f_qty :: real

record order =
  fills :: "fill list option"
  executedQty :: "real option"
  cummulativeQuoteQty :: "real option"

text \<open>What the bot sends to the exchange through \<^verbatim>\<open>create_order\<close>.\<close>

datatype action =
    Buy string real
  | Sell string real

text \<open>
  Everything outside the bot that one price tick depends on: the symbol information and
  the ticker that \<^verbatim>\<open>market_buy\<close> fetches, the exchange's answer to a buy and to a
  sell order (\<open>Inl\<close> when \<^verbatim>\<open>create_order\<close> raises), the clock of the event loop, and
  which call of \<^verbatim>\<open>save_state\<close> in this tick (counted from 0) fails to write, if any.
\<close>

record tick_env =
  symbol_info :: "exn + real option"
  ticker :: "exn + real"
  buy_reply :: "exn + order"
  sell_reply :: "exn + order"
  loop_time :: string
  failing_write :: "nat option"

text \<open>
  The bot: the \<^verbatim>\<open>BotState\<close> object shared by the commands and the \<^verbatim>\<open>TradingBot\<close>,
  the content of \<^verbatim>\<open>bot_state.json\<close> (\<open>None\<close>: no file), whether the
  \<^verbatim>\<open>TradingBot\<close> holds an exchange client, and its monitor task.
\<close>

datatype client_state = NoClient | Connected | Closed

datatype task_state = NoTask | Scheduled | Cancelled

record world =
  state :: bot_state
  disk :: "json option"
  client :: client_state
  price_task :: task_state

text \<open>
  The result of a coroutine that mutates the bot in place: the bot as it is when the
  coroutine ends, the orders it sent, and the exception that ended it, if one did.
\<close>

record outcome =
  final :: world
  emitted :: "action list"
  raised :: "exn option"

definition returned :: "world \<Rightarrow> action list \<Rightarrow> outcome" where
  "returned w acts = \<lparr>final = w, emitted = acts, raised = None\<rparr>"

definition raises :: "exn \<Rightarrow> world \<Rightarrow> action list \<Rightarrow> outcome" where
  "raises ex w acts = \<lparr>final = w, emitted = acts, raised = Some ex\<rparr>"

subsection \<open>Persistence\<close>

text \<open>
  \<^verbatim>\<open>save_state\<close>: the document replaces the file, or the write raises and the file
  is left as it was.
\<close>

definition save_state :: "bool \<Rightarrow> world \<Rightarrow> exn + world" where
  "save_state ok w =
     (if ok then Inr (w\<lparr>disk := Some (serializable (state w))\<rparr>) else Inl IOError)"

definition write_ok :: "tick_env \<Rightarrow> nat \<Rightarrow> bool" where
  "write_ok e k = (failing_write e \<noteq> Some k)"

text \<open>
  \<^verbatim>\<open>load_state\<close>: an existing file is parsed; without a file the default state, with
  the whole allocated budget remaining, is written and returned. The result is the state
  and the file afterwards.
\<close>

definition load_state :: "bool \<Rightarrow> json option \<Rightarrow> exn + (bot_state \<times> json option)" where
  "load_state ok f =
     (case f of
        Some raw \<Rightarrow> bind_exn (state_of_json raw) (\<lambda>s. Inr (s, f))
      | None \<Rightarrow>
          (let st = BotState\<lparr>remaining_budget := allocated_budget (params BotState)\<rparr>
           in if ok then Inr (st, Some (serializable st)) else Inl IOError))"

subsection \<open>Binance helpers\<close>

text \<open>\<^verbatim>\<open>to_integral_value(rounding=ROUND_DOWN)\<close> truncates towards zero.\<close>

definition round_down :: "real \<Rightarrow> int" where
  "round_down x = (if 0 \<le> x then \<lfloor>x\<rfloor> else \<lceil>x\<rceil>)"

text \<open>
  \<^verbatim>\<open>market_buy\<close>: the quantity is estimated from the ticker and cut to the lot step;
  nothing is sent when the estimate is not positive. A \<^verbatim>\<open>BinanceAPIException\<close> of
  \<^verbatim>\<open>create_order\<close> is logged and becomes \<^verbatim>\<open>None\<close>; any other exception leaves
  the function. The result comes with the orders sent.
\<close>

definition market_buy :: "tick_env \<Rightarrow> string \<Rightarrow> real \<Rightarrow> (exn + order option) \<times> action list" where
  "market_buy e sy quote_amount =
     (case symbol_info e of
        Inl ex \<Rightarrow> (Inl ex, [])
      | Inr lot \<Rightarrow>
         (case ticker e of
            Inl ex \<Rightarrow> (Inl ex, [])
          | Inr pr \<Rightarrow>
              if pr = 0 then (Inl ZeroDivisionError, [])
              else
                let qty = quote_amount / pr;
                    step_size = (case lot of None \<Rightarrow> 1 / 10 ^ 8
                                 | Some st \<Rightarrow> if st = 0 then 1 / 10 ^ 8 else st);
                    quant = of_int (round_down (qty / step_size)) * step_size
                in if quant \<le> 0 then (Inr None, [])
                   else
                     (case buy_reply e of
                        Inr rsp \<Rightarrow> (Inr (Some rsp), [Buy sy quote_amount])
                      | Inl ex \<Rightarrow>
                          if ex = BinanceAPIException then (Inr None, [Buy sy quote_amount])
                          else (Inl ex, [Buy sy quote_amount]))))"

definition market_sell :: "tick_env \<Rightarrow> string \<Rightarrow> real \<Rightarrow> (exn + order option) \<times> action list" where
  "market_sell e sy qty =
     (case sell_reply e of
        Inr rsp \<Rightarrow> (Inr (Some rsp), [Sell sy qty])
      | Inl ex \<Rightarrow>
          if ex = BinanceAPIException then (Inr None, [Sell sy qty])
          else (Inl ex, [Sell sy qty]))"

section \<open>Trading logic\<close>

text \<open>
  The quantity and the average price that \<^verbatim>\<open>on_price\<close> reads from a buy order: from
  the fills when there are any (the division raises when their quantities sum to zero),
  otherwise from \<^verbatim>\<open>executedQty\<close> and \<^verbatim>\<open>cummulativeQuoteQty\<close>.
\<close>

definition fill_result :: "order \<Rightarrow> real \<Rightarrow> exn + (real \<times> real)" where
  "fill_result rsp price =
     (case fills rsp of
        Some (f # fs) \<Rightarrow>
          (let qty = sum_list (map f_qty (f # fs))
           in if qty = 0 then Inl ZeroDivisionError
              else Inr (qty, sum_list (map (\<lambda>x. f_price x * f_qty x) (f # fs)) / qty))
      | _ \<Rightarrow>
          (let qty = (case executedQty rsp of None \<Rightarrow> 0 | Some q \<Rightarrow> q);
               cqq = (case cummulativeQuoteQty rsp of None \<Rightarrow> 0 | Some c \<Rightarrow> c);
               avg_price = (if qty \<noteq> 0 then cqq / qty else price)
           in Inr (qty, avg_price)))"

text \<open>
  After a sell order that returned: \<^verbatim>\<open>del self.state.positions[pos.symbol]\<close>, save,
  reset the reference price to the current price, save. These are the second and the
  third write of the tick.
\<close>

definition close_position :: "tick_env \<Rightarrow> real \<Rightarrow> position \<Rightarrow> action list \<Rightarrow> world \<Rightarrow> outcome" where
  "close_position e price pos acts w =
     (if map_of (positions (state w)) (pos_symbol pos) = None then raises KeyError w acts
      else
        let w1 = w\<lparr>state := (state w)\<lparr>positions :=
                       AList.delete (pos_symbol pos) (positions (state w))\<rparr>\<rparr>
        in case save_state (write_ok e 1) w1 of
             Inl ex \<Rightarrow> raises ex w1 acts
           | Inr w2 \<Rightarrow>
               (let w3 = w2\<lparr>state := (state w2)\<lparr>last_reference_price := Some price\<rparr>\<rparr>
                in case save_state (write_ok e 2) w3 of
                     Inl ex \<Rightarrow> raises ex w3 acts
                   | Inr w4 \<Rightarrow> returned w4 acts))"

text \<open>The sell order of the profit target and of the trailing stop, and what follows it.\<close>

definition sell_position :: "tick_env \<Rightarrow> real \<Rightarrow> position \<Rightarrow> world \<Rightarrow> outcome" where
  "sell_position e price pos w =
     (case market_sell e (pos_symbol pos) (quantity pos) of
        (Inl ex, acts) \<Rightarrow> raises ex w acts
      | (Inr None, acts) \<Rightarrow> returned w acts
      | (Inr (Some rsp), acts) \<Rightarrow> close_position e price pos acts w)"

text \<open>The branch of \<^verbatim>\<open>on_price\<close> without a position for the symbol.\<close>

definition buy_path :: "tick_env \<Rightarrow> real \<Rightarrow> real \<Rightarrow> world \<Rightarrow> outcome" where
  "buy_path e price ref w =
     (let s = state w; ps = params s
      in if price \<le> ref * (1 - decrease_pct ps) then
           if remaining_budget s \<ge> tx_amount ps then
             (case market_buy e (symbol ps) (tx_amount ps) of
                (Inl ex, acts) \<Rightarrow> raises ex w acts
              | (Inr None, acts) \<Rightarrow> returned w acts
              | (Inr (Some rsp), acts) \<Rightarrow>
                  (case fill_result rsp price of
                     Inl ex \<Rightarrow> raises ex w acts
                   | Inr (qty, avg_price) \<Rightarrow>
                       if qty > 0 then
                         (let pos = \<lparr>pos_symbol = symbol ps, quantity = qty,
                                     buy_price = avg_price, highest_price = avg_price,
                                     entry_time = loop_time e\<rparr>;
                              w1 = w\<lparr>state := s\<lparr>positions :=
                                          AList.update (symbol ps) pos (positions s),
                                        remaining_budget := remaining_budget s - tx_amount ps\<rparr>\<rparr>
                          in case save_state (write_ok e 0) w1 of
                               Inl ex \<Rightarrow> raises ex w1 acts
                             | Inr w2 \<Rightarrow> returned w2 acts)
                       else returned w acts))
           else returned w []
         else if price > ref then
           (let w1 = w\<lparr>state := s\<lparr>last_reference_price := Some price\<rparr>\<rparr>
            in case save_state (write_ok e 0) w1 of
                 Inl ex \<Rightarrow> raises ex w1 []
               | Inr w2 \<Rightarrow> returned w2 [])
         else returned w [])"

text \<open>
  The branch with an open position. The position object is the one stored in the
  dictionary under the configured symbol, so raising its \<^verbatim>\<open>highest_price\<close> changes
  that entry.
\<close>

definition sell_path :: "tick_env \<Rightarrow> real \<Rightarrow> position \<Rightarrow> world \<Rightarrow> outcome" where
  "sell_path e price pos0 w =
     (let s = state w; ps = params s;
          pos = pos0\<lparr>highest_price := max (highest_price pos0) price\<rparr>;
          w1 = w\<lparr>state := s\<lparr>positions := AList.update (symbol ps) pos (positions s)\<rparr>\<rparr>
      in case save_state (write_ok e 0) w1 of
           Inl ex \<Rightarrow> raises ex w1 []
         | Inr w2 \<Rightarrow>
             (let target_price = buy_price pos * (1 + increase_pct ps)
              in if price \<ge> target_price then sell_position e price pos w2
                 else if highest_price pos > buy_price pos then
                   (let trailing_stop_price = highest_price pos * (1 - decrease_pct ps)
                    in if price \<le> trailing_stop_price \<and> price \<ge> buy_price pos
                       then sell_position e price pos w2
                       else returned w2 [])
                 else returned w2 []))"

definition on_price :: "tick_env \<Rightarrow> real \<Rightarrow> world \<Rightarrow> outcome" where
  "on_price e price w =
     (let s = state w
      in case last_reference_price s of
           None \<Rightarrow>
             (let w1 = w\<lparr>state := s\<lparr>last_reference_price := Some price\<rparr>\<rparr>
              in case save_state (write_ok e 0) w1 of
                   Inl ex \<Rightarrow> raises ex w1 []
                 | Inr w2 \<Rightarrow> returned w2 [])
         | Some ref \<Rightarrow>
             (case map_of (positions s) (symbol (params s)) of
                None \<Rightarrow> buy_path e price ref w
              | Some pos \<Rightarrow> sell_path e price pos w))"

subsection \<open>The monitor loop\<close>

text \<open>
  One iteration of \<^verbatim>\<open>price_monitor_loop\<close>, entered with \<^verbatim>\<open>running\<close> true: fetch
  the price and call \<^verbatim>\<open>on_price\<close>; a cancellation leaves the loop, any other
  exception is logged and the loop goes on to sleep and to the next iteration.
\<close>

datatype loop_ctl = Continue | Break

definition loop_body :: "exn + real \<Rightarrow> tick_env \<Rightarrow> world \<Rightarrow> world \<times> action list \<times> loop_ctl" where
  "loop_body fetch e w =
     (case fetch of
        Inl ex \<Rightarrow> (w, [], if ex = CancelledError then Break else Continue)
      | Inr price \<Rightarrow>
          (let r = on_price e price w
           in (final r, emitted r,
               if raised r = Some CancelledError then Break else Continue)))"


subsection \<open>Starting and stopping\<close>

text \<open>
  \<^verbatim>\<open>TradingBot.start\<close>; \<open>create_err\<close> is the exception of
  \<^verbatim>\<open>create_binance_client\<close>, if it raises.
\<close>

definition start :: "exn option \<Rightarrow> bool \<Rightarrow> world \<Rightarrow> outcome" where
  "start create_err ok w =
     (if running (state w) then returned w []
      else
        case create_err of
          Some ex \<Rightarrow> raises ex w []
        | None \<Rightarrow>
            (let w1 = w\<lparr>client := Connected, state := (state w)\<lparr>running := True\<rparr>\<rparr>
             in case save_state ok w1 of
                  Inl ex \<Rightarrow> raises ex w1 []
                | Inr w2 \<Rightarrow> returned (w2\<lparr>price_task := Scheduled\<rparr>) []))"

definition stop :: "bool \<Rightarrow> world \<Rightarrow> outcome" where
  "stop ok w =
     (if \<not> running (state w) then returned w []
      else
        let w1 = w\<lparr>state := (state w)\<lparr>running := False\<rparr>\<rparr>
        in case save_state ok w1 of
             Inl ex \<Rightarrow> raises ex w1 []
           | Inr w2 \<Rightarrow>
               (let w3 = (if price_task w2 \<noteq> NoTask then w2\<lparr>price_task := Cancelled\<rparr> else w2);
                    w4 = (if client w3 \<noteq> NoClient then w3\<lparr>client := Closed\<rparr> else w3)
                in returned w4 []))"

section \<open>Discord commands\<close>

text \<open>\<^verbatim>\<open>str.upper\<close> on ASCII text.\<close>

definition upper_char :: "char \<Rightarrow> char" where
  "upper_char c =
     (let n = (of_char c :: nat) in if 97 \<le> n \<and> n \<le> 122 then char_of (n - 32) else c)"

definition upper :: "string \<Rightarrow> string" where
  "upper s = map upper_char s"

text \<open>A command mutates the state and saves it; \<open>ok\<close> tells whether the write succeeds.\<close>

definition saved :: "bool \<Rightarrow> world \<Rightarrow> outcome" where
  "saved ok w = (case save_state ok w of Inl ex \<Rightarrow> raises ex w [] | Inr w' \<Rightarrow> returned w' [])"

definition setcoin :: "bool \<Rightarrow> string \<Rightarrow> world \<Rightarrow> outcome" where
  "setcoin ok sy w =
     saved ok (w\<lparr>state := (state w)\<lparr>params := (params (state w))\<lparr>symbol := upper sy\<rparr>,
                                     last_reference_price := None\<rparr>\<rparr>)"

definition set_decrease :: "bool \<Rightarrow> real \<Rightarrow> world \<Rightarrow> outcome" where
  "set_decrease ok pct w =
     (if pct \<le> 0 \<or> pct \<ge> 1 then returned w []
      else saved ok (w\<lparr>state := (state w)\<lparr>params := (params (state w))\<lparr>decrease_pct := pct\<rparr>\<rparr>\<rparr>))"

definition set_increase :: "bool \<Rightarrow> real \<Rightarrow> world \<Rightarrow> outcome" where
  "set_increase ok pct w =
     (if pct \<le> 0 \<or> pct \<ge> 1 then returned w []
      else saved ok (w\<lparr>state := (state w)\<lparr>params := (params (state w))\<lparr>increase_pct := pct\<rparr>\<rparr>\<rparr>))"

definition set_amount :: "bool \<Rightarrow> real \<Rightarrow> world \<Rightarrow> outcome" where
  "set_amount ok amount w =
     (if amount \<le> 0 then returned w []
      else saved ok (w\<lparr>state := (state w)\<lparr>params := (params (state w))\<lparr>tx_amount := amount\<rparr>\<rparr>\<rparr>))"

definition set_budget :: "bool \<Rightarrow> real \<Rightarrow> world \<Rightarrow> outcome" where
  "set_budget ok amount w =
     (if amount \<le> 0 then returned w []
      else saved ok (w\<lparr>state := (state w)\<lparr>params := (params (state w))\<lparr>allocated_budget := amount\<rparr>,
                                          remaining_budget := amount\<rparr>\<rparr>))"

definition start_command :: "exn option \<Rightarrow> bool \<Rightarrow> world \<Rightarrow> outcome" where
  "start_command create_err ok w =
     (if running (state w) then returned w [] else start create_err ok w)"

definition stop_command :: "bool \<Rightarrow> world \<Rightarrow> outcome" where
  "stop_command ok w = (if \<not> running (state w) then returned w [] else stop ok w)"

definition reset :: "bool \<Rightarrow> world \<Rightarrow> outcome" where
  "reset ok w =
     saved ok (w\<lparr>state := (state w)\<lparr>params := Parameters,
                                     remaining_budget := allocated_budget Parameters,
                                     positions := [],
                                     last_reference_price := None,
                                     running := False\<rparr>\<rparr>)"

section \<open>Runs of the bot\<close>

text \<open>
  The process starts by loading the state: \<^verbatim>\<open>state = load_state()\<close> at module level,
  with no client and no task yet. When loading raises, the process does not come up.
\<close>

definition boot :: "bool \<Rightarrow> json option \<Rightarrow> world option" where
  "boot ok f =
     (case load_state ok f of
        Inl ex \<Rightarrow> None
      | Inr (s, f') \<Rightarrow> Some \<lparr>state = s, disk = f', client = NoClient, price_task = NoTask\<rparr>)"

text \<open>
  What can happen to a running process: an iteration of the monitor loop, one of the
  commands, or a restart of the process on the file it left. The iterations and the
  commands are taken one at a time, each running to its end before the next begins.
\<close>

datatype event =
    Tick "exn + real" tick_env
  | Setcoin bool string
  | SetDecrease bool real
  | SetIncrease bool real
  | SetAmount bool real
  | SetBudget bool real
  | StartCmd "exn option" bool
  | StopCmd bool
  | Reset bool
  | Restart bool

fun step :: "event \<Rightarrow> world \<Rightarrow> world" where
  "step (Tick fetch e) w =
     (if running (state w) \<and> price_task w = Scheduled then fst (loop_body fetch e w) else w)"
| "step (Setcoin ok sy) w = final (setcoin ok sy w)"
| "step (SetDecrease ok pct) w = final (set_decrease ok pct w)"
| "step (SetIncrease ok pct) w = final (set_increase ok pct w)"
| "step (SetAmount ok amount) w = final (set_amount ok amount w)"
| "step (SetBudget ok amount) w = final (set_budget ok amount w)"
| "step (StartCmd create_err ok) w = final (start_command create_err ok w)"
| "step (StopCmd ok) w = final (stop_command ok w)"
| "step (Reset ok) w = final (reset ok w)"
| "step (Restart ok) w = (case boot ok (disk w) of None \<Rightarrow> w | Some w' \<Rightarrow> w')"

text \<open>
  The exchange reports prices and quantities that are not negative: in every fill of a
  buy order, and in its cumulative quote quantity.
\<close>

definition sane_order :: "order \<Rightarrow> bool" where
  "sane_order rsp =
     ((case fills rsp of
         None \<Rightarrow> True
       | Some fs \<Rightarrow> list_all (\<lambda>f. 0 \<le> f_price f \<and> 0 \<le> f_qty f) fs) \<and>
      (case cummulativeQuoteQty rsp of None \<Rightarrow> True | Some c \<Rightarrow> 0 \<le> c))"

fun sane_event :: "event \<Rightarrow> bool" where
  "sane_event (Tick fetch e) = (case buy_reply e of Inl ex \<Rightarrow> True | Inr rsp \<Rightarrow> sane_order rsp)"
| "sane_event ev = True"

text \<open>
  The reachable states: those of a process first started without a state file, after any
  number of events with sane exchange data.
\<close>

inductive reachable :: "world \<Rightarrow> bool" where
  fresh: "boot True None = Some w \<Longrightarrow> reachable w"
| after: "reachable w \<Longrightarrow> sane_event ev \<Longrightarrow> reachable (step ev w)"

section \<open>Invariants of the state\<close>

text \<open>
  An entry of the positions dictionary is well formed when the position carries the symbol
  it is stored under, holds a positive quantity, was bought at a price that is not
  negative, and has a high-water mark at or above that price.
\<close>

definition position_ok :: "string \<times> position \<Rightarrow> bool" where
  "position_ok kp =
     (pos_symbol (snd kp) = fst kp \<and> 0 < quantity (snd kp) \<and>
      0 \<le> buy_price (snd kp) \<and> buy_price (snd kp) \<le> highest_price (snd kp))"

text \<open>
  A state is well formed when the percentages are fractions strictly between 0 and 1, the
  trade amount and the allocated budget are positive, the remaining budget lies between 0
  and the allocated budget, no symbol has two entries, and every entry is well formed.
\<close>

definition state_ok :: "bot_state \<Rightarrow> bool" where
  "state_ok s =
     (0 < decrease_pct (params s) \<and> decrease_pct (params s) < 1 \<and>
      0 < increase_pct (params s) \<and> increase_pct (params s) < 1 \<and>
      0 < tx_amount (params s) \<and> 0 < allocated_budget (params s) \<and>
      0 \<le> remaining_budget s \<and> remaining_budget s \<le> allocated_budget (params s) \<and>
      distinct (map fst (positions s)) \<and> list_all position_ok (positions s))"

text \<open>The bot is well formed when its state is, and its file holds a well-formed state.\<close>

definition world_ok :: "world \<Rightarrow> bool" where
  "world_ok w =
     (state_ok (state w) \<and>
      (case disk w of
         None \<Rightarrow> True
       | Some d \<Rightarrow> (case state_of_json d of Inl ex \<Rightarrow> False | Inr s \<Rightarrow> state_ok s)))"

section \<open>A sample run\<close>

text \<open>
  A concrete environment and a concrete run, used to exercise the theorems below: the
  exchange fills a buy of 50 with half a coin at 97 and accepts every sell, and every
  write succeeds.
\<close>

definition demo_env :: tick_env where
  "demo_env =
     \<lparr>symbol_info = Inr (Some (1 / 1000)),
      ticker = Inr 100,
      buy_reply = Inr \<lparr>fills = Some [\<lparr>f_price = 97, f_qty = 1 / 2\<rparr>],
                        executedQty = Some (1 / 2), cummulativeQuoteQty = Some (97 / 2)\<rparr>,
      sell_reply = Inr \<lparr>fills = None, executedQty = Some (1 / 2),
                         cummulativeQuoteQty = Some 50\<rparr>,
      loop_time = ''12.5'',
      failing_write = None\<rparr>"

definition fresh_state :: bot_state where
  "fresh_state = BotState\<lparr>remaining_budget := 500\<rparr>"

definition fresh_world :: world where
  "fresh_world =
     \<lparr>state = fresh_state, disk = Some (serializable fresh_state),
      client = NoClient, price_task = NoTask\<rparr>"

text \<open>Started, first tick at 100 (the reference price is set), second tick at 97 (a buy).\<close>

definition watching_world :: world where
  "watching_world = step (Tick (Inr 100) demo_env) (step (StartCmd None True) fresh_world)"

definition holding_world :: world where
  "holding_world = step (Tick (Inr 97) demo_env) watching_world"


text \<open>
  After the buy, the command \<^verbatim>\<open>setcoin btcusdt\<close>: the symbol stays the same and the
  reference price is cleared while the position is open.
\<close>

definition cleared_world :: world where
  "cleared_world = step (Setcoin True ''btcusdt'') holding_world"


text \<open>An exchange that rejects every order, and one that accepts a sell without executing it.\<close>

definition rejecting_env :: tick_env where
  "rejecting_env =
     demo_env\<lparr>buy_reply := Inl BinanceAPIException, sell_reply := Inl BinanceAPIException\<rparr>"

definition idle_env :: tick_env where
  "idle_env =
     demo_env\<lparr>sell_reply := Inr \<lparr>fills = None, executedQty = Some 0,
                                    cummulativeQuoteQty = Some 0\<rparr>\<rparr>"

section \<open>Buy attempts without a fill\<close>

text \<open>
  A buy attempt of a tick ends without a fill when \<^verbatim>\<open>market_buy\<close> returns no order, or
  returns an order from which \<^verbatim>\<open>on_price\<close> reads no positive quantity (the division by
  a zero sum of fill quantities included).
\<close>

definition no_buy_fill :: "tick_env \<Rightarrow> real \<Rightarrow> world \<Rightarrow> bool" where
  "no_buy_fill e price w =
     (case fst (market_buy e (symbol (params (state w))) (tx_amount (params (state w)))) of
        Inl ex \<Rightarrow> False
      | Inr None \<Rightarrow> True
      | Inr (Some rsp) \<Rightarrow>
          (case fill_result rsp price of Inl ex \<Rightarrow> True | Inr (qty, avg_price) \<Rightarrow> qty \<le> 0))"

section \<open>The trailing-stop rule in the words of the specification\<close>

text \<open>
  The specification's rule for an open position below its profit target: with the
  high-water mark of the tick, \<open>max highest_price price\<close>, the stop is armed when the mark
  is above the buy price, the stop price is the mark times \<open>1 - decrease_pct\<close>, and the
  position is sold when the price is at or below the stop and not below the buy price.
\<close>

definition high_water :: "position \<Rightarrow> real \<Rightarrow> real" where
  "high_water pos price = max (highest_price pos) price"

definition trailing_stop_hit :: "parameters \<Rightarrow> position \<Rightarrow> real \<Rightarrow> bool" where
  "trailing_stop_hit ps pos price =
     (high_water pos price > buy_price pos \<and>
      price \<le> high_water pos price * (1 - decrease_pct ps) \<and>
      price \<ge> buy_price pos)"

section \<open>Persistence round trip\<close>

lemma Parameters_of_asdict:
  "asdict_parameters p = JObj d \<Longrightarrow> Parameters_of d = Inr p"
  by (auto simp: asdict_parameters_def Parameters_of_def get_or_def bind_exn_def
        as_str_def as_num_def)

lemma Position_of_asdict: "Position_of (asdict_position v) = Inr v"
  by (simp add: asdict_position_def Position_of_def get_req_def bind_exn_def
        as_str_def as_num_def as_obj_def)

lemma positions_of_asdict:
  "positions_of (map (\<lambda>(k, v). (k, asdict_position v)) ps) = Inr ps"
  by (induction ps) (auto simp: Position_of_asdict bind_exn_def)

lemma as_opt_num_json_of_ref: "as_opt_num (json_of_ref r) = Inr r"
  by (cases r) (simp_all add: json_of_ref_def as_opt_num_def)

lemma state_of_json_serializable: "state_of_json (serializable s) = Inr s"
  using Parameters_of_asdict [of "params s"]
  by (simp add: serializable_def state_of_json_def get_or_def bind_exn_def as_obj_def
        as_num_def as_bool_def positions_of_asdict as_opt_num_json_of_ref
        asdict_parameters_def)

text \<open>
  Claim C8. Persistence round-trips for every state: the document that \<^verbatim>\<open>save_state\<close>
  builds from a state is read back by \<^verbatim>\<open>load_state\<close> as that same state
  (parameters, remaining budget, positions by symbol, the nullable reference price and the
  running flag), and loading the file right after a successful save returns the state
  that was saved and leaves the file as it is.
\<close>

theorem load_save_round_trip:
  "state_of_json (serializable s) = Inr s \<and>
   load_state ok (Some (serializable s)) = Inr (s, Some (serializable s)) \<and>
   bind_exn (save_state True w) (\<lambda>w'. load_state ok (disk w')) =
     Inr (state w, Some (serializable (state w)))"
  by (simp add: state_of_json_serializable load_state_def save_state_def bind_exn_def)

section \<open>Every reachable state is well formed\<close>

lemma list_all_update:
  "list_all P al \<Longrightarrow> P (k, v) \<Longrightarrow> list_all P (AList.update k v al)"
  by (induction al) (auto)

lemma list_all_delete: "list_all P al \<Longrightarrow> list_all P (AList.delete k al)"
  by (induction al) (auto simp: AList.delete_eq)

lemma list_all_map_of:
  "list_all P al \<Longrightarrow> map_of al k = Some v \<Longrightarrow> P (k, v)"
  by (auto simp: list_all_iff dest: map_of_SomeD)

lemma close_position_ok:
  "world_ok w \<Longrightarrow> world_ok (final (close_position e price pos acts w))"
  by (auto simp: close_position_def save_state_def raises_def returned_def world_ok_def
        state_ok_def Let_def AList.distinct_delete list_all_delete state_of_json_serializable
      split: option.splits sum.splits)

lemma sell_position_ok:
  "world_ok w \<Longrightarrow> world_ok (final (sell_position e price pos w))"
  by (auto simp: sell_position_def raises_def returned_def close_position_ok
      split: prod.splits sum.splits option.splits)

lemma sell_path_ok:
  "world_ok w \<Longrightarrow> map_of (positions (state w)) (symbol (params (state w))) = Some pos0 \<Longrightarrow>
   world_ok (final (sell_path e price pos0 w))"
  apply (frule list_all_map_of [where P = position_ok and al = "positions (state w)", rotated])
   apply (simp add: world_ok_def state_ok_def)
  apply (simp add: sell_path_def Let_def save_state_def raises_def split: sum.splits)
  apply (intro conjI impI sell_position_ok)
  apply (auto simp: world_ok_def state_ok_def AList.distinct_update list_all_update position_ok_def
         state_of_json_serializable returned_def)
  done


lemma market_buy_Some:
  "market_buy e sy q = (Inr (Some rsp), acts) \<Longrightarrow> buy_reply e = Inr rsp \<and> acts = [Buy sy q]"
  by (auto simp: market_buy_def Let_def split: sum.splits if_splits option.splits)

lemma fill_result_sane:
  assumes "sane_order rsp" and "fill_result rsp price = Inr (qty, avg)" and "0 < qty"
  shows "0 \<le> avg"
proof (cases "fills rsp")
  case None
  with assms show ?thesis
    by (auto simp: fill_result_def sane_order_def Let_def split: option.splits if_splits)
next
  case (Some fs)
  show ?thesis
  proof (cases fs)
    case Nil
    with Some assms show ?thesis
      by (auto simp: fill_result_def sane_order_def Let_def split: option.splits if_splits)
  next
    case (Cons f fs')
    from assms(1) Some have "\<forall>x\<in>set fs. 0 \<le> f_price x * f_qty x"
      by (auto simp: sane_order_def list_all_iff)
    then have "0 \<le> sum_list (map (\<lambda>x. f_price x * f_qty x) fs)"
      by (intro sum_list_nonneg) auto
    moreover from assms(2) Some Cons
    have "avg = sum_list (map (\<lambda>x. f_price x * f_qty x) fs) / qty"
      by (auto simp: fill_result_def Let_def split: if_splits)
    ultimately show ?thesis using assms(3) by simp
  qed
qed

lemma buy_path_ok:
  assumes "world_ok w" and "map_of (positions (state w)) (symbol (params (state w))) = None"
    and "case buy_reply e of Inl ex \<Rightarrow> True | Inr rsp \<Rightarrow> sane_order rsp"
  shows "world_ok (final (buy_path e price ref w))"
proof -
  have sane: "0 \<le> avg" if "market_buy e sy q = (Inr (Some rsp), acts)"
      and "fill_result rsp price = Inr (qty, avg)" and "0 < qty" for sy q rsp acts qty avg
    using that assms(3) market_buy_Some [OF that(1)] fill_result_sane [of rsp price qty avg]
    by simp
  show ?thesis
    using assms(1)
    by (auto simp: buy_path_def Let_def save_state_def raises_def returned_def world_ok_def
          state_ok_def AList.distinct_update list_all_update position_ok_def
          state_of_json_serializable sane
        split: prod.splits sum.splits option.splits)
qed

lemma on_price_ok:
  assumes "world_ok w"
    and "case buy_reply e of Inl ex \<Rightarrow> True | Inr rsp \<Rightarrow> sane_order rsp"
  shows "world_ok (final (on_price e price w))"
proof (cases "last_reference_price (state w)")
  case None
  with assms(1) show ?thesis
    by (auto simp: on_price_def Let_def save_state_def raises_def returned_def world_ok_def
          state_ok_def state_of_json_serializable)
next
  case (Some ref)
  then show ?thesis
    using assms buy_path_ok [of w e price ref] sell_path_ok [of w _ e price]
    by (auto simp: on_price_def Let_def split: option.splits)
qed


lemma commands_ok:
  assumes "world_ok w"
  shows "world_ok (final (setcoin b sy w))"
    and "world_ok (final (set_decrease b x w))"
    and "world_ok (final (set_increase b x w))"
    and "world_ok (final (set_amount b x w))"
    and "world_ok (final (set_budget b x w))"
    and "world_ok (final (reset b w))"
    and "world_ok (final (start_command c b w))"
    and "world_ok (final (stop_command b w))"
  using assms
  by (auto simp: setcoin_def set_decrease_def set_increase_def set_amount_def set_budget_def
        reset_def start_command_def stop_command_def start_def stop_def Parameters_def
        saved_def save_state_def raises_def returned_def world_ok_def state_ok_def
        state_of_json_serializable Let_def
      split: option.splits)

lemma boot_ok:
  assumes "boot b f = Some w'"
    and "case f of None \<Rightarrow> True | Some d \<Rightarrow> (case state_of_json d of Inl ex \<Rightarrow> False | Inr s \<Rightarrow> state_ok s)"
  shows "world_ok w'"
  using assms
  by (auto simp: boot_def load_state_def bind_exn_def world_ok_def state_ok_def BotState_def
        Parameters_def state_of_json_serializable Let_def
      split: option.splits sum.splits if_splits)

lemma step_ok: "world_ok w \<Longrightarrow> sane_event ev \<Longrightarrow> world_ok (step ev w)"
proof (cases ev)
  case (Tick fetch e)
  assume "world_ok w" "sane_event ev"
  with Tick show ?thesis
    using on_price_ok [of w e]
    by (auto simp: loop_body_def Let_def split: sum.splits)
next
  case (Restart b)
  assume "world_ok w"
  then show ?thesis
    using Restart boot_ok [of b "disk w"]
    by (auto simp: world_ok_def split: option.splits)
qed (simp_all add: commands_ok)

lemma reachable_ok: "reachable w \<Longrightarrow> world_ok w"
proof (induction rule: reachable.induct)
  case (fresh w)
  then show ?case using boot_ok [of True None w] by simp
next
  case (after w ev)
  then show ?case by (simp add: step_ok)
qed

section \<open>The sample run\<close>

lemma boot_fresh: "boot True None = Some fresh_world"
  by (simp add: boot_def load_state_def fresh_world_def fresh_state_def Let_def BotState_def
      Parameters_def)

lemma watching_state:
  "state watching_world = fresh_state\<lparr>last_reference_price := Some 100, running := True\<rparr>"
  "price_task watching_world = Scheduled"
  by (simp_all add: watching_world_def fresh_world_def fresh_state_def BotState_def start_command_def
      start_def save_state_def returned_def raises_def loop_body_def on_price_def Let_def
      demo_env_def write_ok_def)

lemma holding_state:
  "state holding_world =
     fresh_state\<lparr>last_reference_price := Some 100, running := True, remaining_budget := 450,
       positions := [(''BTCUSDT'', \<lparr>pos_symbol = ''BTCUSDT'', quantity = 1/2, buy_price = 97,
          highest_price = 97, entry_time = ''12.5''\<rparr>)]\<rparr>"
  "price_task holding_world = Scheduled"
  by (simp_all add: holding_world_def watching_state loop_body_def on_price_def Let_def
      fresh_state_def BotState_def Parameters_def buy_path_def market_buy_def round_down_def
      fill_result_def save_state_def returned_def raises_def demo_env_def write_ok_def)

lemma reachable_fresh: "reachable fresh_world"
  by (rule reachable.fresh) (rule boot_fresh)

lemma sane_demo: "sane_event (Tick fetch demo_env)"
  by (simp add: demo_env_def sane_order_def)

lemma reachable_watching: "reachable watching_world"
  unfolding watching_world_def
  by (intro reachable.after reachable_fresh sane_demo) simp

lemma reachable_holding: "reachable holding_world"
  unfolding holding_world_def
  by (intro reachable.after reachable_watching sane_demo)

section \<open>The orders of one tick\<close>

lemma emitted_close_position: "emitted (close_position e price pos acts w) = acts"
  by (simp add: close_position_def raises_def returned_def Let_def split: sum.splits)

lemma emitted_sell_position:
  "emitted (sell_position e price pos w) = [Sell (pos_symbol pos) (quantity pos)]"
  by (auto simp: sell_position_def market_sell_def raises_def returned_def emitted_close_position
      split: sum.splits prod.splits option.splits)

lemma emitted_buy_path:
  "emitted (buy_path e price ref w) = [] \<or>
   emitted (buy_path e price ref w) = [Buy (symbol (params (state w))) (tx_amount (params (state w)))]"
  by (auto simp: buy_path_def market_buy_def raises_def returned_def Let_def
      split: sum.splits prod.splits option.splits if_splits)

lemma buy_path_no_Sell: "Sell sy q \<notin> set (emitted (buy_path e price ref w))"
  using emitted_buy_path [of e price ref w] by auto

lemma sell_path_Sell:
  assumes "Sell sy q \<in> set (emitted (sell_path e price pos0 w))"
  shows "sy = pos_symbol pos0 \<and> q = quantity pos0 \<and>
         (buy_price pos0 * (1 + increase_pct (params (state w))) \<le> price \<or> buy_price pos0 \<le> price)"
  using assms
  by (auto simp: sell_path_def Let_def raises_def returned_def emitted_sell_position
      split: sum.splits if_splits)

section \<open>Loss invariant\<close>

text \<open>
  Claim C1. In every reachable state (the exchange reporting fills at prices and in
  quantities that are not negative) and for every observed price, a sell order that
  \<^verbatim>\<open>on_price\<close> sends is a sell of the position open under the configured symbol,
  for its full quantity, and the observed price is not below that position's buy price:
  the profit target needs \<open>price \<ge> buy_price * (1 + increase_pct)\<close> with a positive
  percentage, and the trailing stop needs \<open>price \<ge> buy_price\<close> itself.
\<close>

theorem no_sell_below_buy_price:
  assumes "reachable w" and "Sell sy q \<in> set (emitted (on_price e price w))"
  shows "\<exists>pos. map_of (positions (state w)) (symbol (params (state w))) = Some pos \<and>
           sy = pos_symbol pos \<and> q = quantity pos \<and> buy_price pos \<le> price"
proof -
  from assms(1) have ok: "state_ok (state w)"
    using reachable_ok by (simp add: world_ok_def)
  from assms(2) obtain ref pos where
      ref: "last_reference_price (state w) = Some ref"
    and pos: "map_of (positions (state w)) (symbol (params (state w))) = Some pos"
    and sell: "Sell sy q \<in> set (emitted (sell_path e price pos w))"
    by (auto simp: on_price_def Let_def raises_def returned_def buy_path_no_Sell
        split: option.splits sum.splits)
  from ok pos have "position_ok (symbol (params (state w)), pos)"
    by (auto simp: state_ok_def intro: list_all_map_of)
  then have bp: "0 \<le> buy_price pos" by (simp add: position_ok_def)
  from ok have inc: "0 < increase_pct (params (state w))" by (simp add: state_ok_def)
  from bp inc have "buy_price pos \<le> buy_price pos * (1 + increase_pct (params (state w)))"
    by (simp add: mult_le_cancel_left1)
  with sell_path_Sell [OF sell] pos show ?thesis by auto
qed

theorem no_sell_below_buy_price_witness:
  "emitted (on_price demo_env 100 holding_world) = [Sell ''BTCUSDT'' (1 / 2)] \<and>
   (\<exists>pos. map_of (positions (state holding_world)) (symbol (params (state holding_world))) = Some pos \<and>
       ''BTCUSDT'' = pos_symbol pos \<and> 1 / 2 = quantity pos \<and> buy_price pos \<le> 100)"
proof -
  have em: "emitted (on_price demo_env 100 holding_world) = [Sell ''BTCUSDT'' (1 / 2)]"
    by (simp add: on_price_def holding_state fresh_state_def BotState_def Parameters_def Let_def
        sell_path_def save_state_def write_ok_def demo_env_def emitted_sell_position)
  have "Sell ''BTCUSDT'' (1 / 2) \<in> set (emitted (on_price demo_env 100 holding_world))"
    by (simp add: em)
  from no_sell_below_buy_price [OF reachable_holding this] em show ?thesis by simp
qed

section \<open>Single position invariant\<close>








section \<open>Positions of other symbols\<close>










section \<open>Starting and stopping twice\<close>

lemma start_twice: "final (start c ok (final (start c ok w))) = final (start c ok w)"
  by (auto simp: start_def save_state_def returned_def raises_def Let_def split: option.splits)

lemma stop_twice: "final (stop ok (final (stop ok w))) = final (stop ok w)"
  by (auto simp: stop_def save_state_def returned_def raises_def Let_def)

lemma start_noop:
  "running (state w) \<Longrightarrow> start c ok w = returned w [] \<and> start_command c ok w = returned w []"
  by (simp add: start_def start_command_def)

lemma stop_noop:
  "\<not> running (state w) \<Longrightarrow> stop ok w = returned w [] \<and> stop_command ok w = returned w []"
  by (simp add: stop_def stop_command_def)

text \<open>
  Claim C10. \<^verbatim>\<open>start\<close> called while \<^verbatim>\<open>running\<close> is true returns at once: the
  whole bot (state, file, client and task) is as before and nothing is raised, and the
  same holds for the \<^verbatim>\<open>start\<close> command. \<^verbatim>\<open>stop\<close> called while \<^verbatim>\<open>running\<close>
  is false likewise changes nothing. Calling either of them twice in the same environment
  leaves the bot as calling it once does.
\<close>

theorem start_stop_idempotent:
  "(running (state w) \<longrightarrow>
      start c ok w = returned w [] \<and> start_command c ok w = returned w []) \<and>
   (\<not> running (state w') \<longrightarrow>
      stop ok w' = returned w' [] \<and> stop_command ok w' = returned w' []) \<and>
   final (start c ok (final (start c ok w))) = final (start c ok w) \<and>
   final (stop ok (final (stop ok w'))) = final (stop ok w')"
  using start_noop [of w c ok] stop_noop [of w' ok] start_twice [of c ok w] stop_twice [of ok w']
  by blast

lemma watching_running: "running (state watching_world)"
  by (simp add: watching_state fresh_state_def)

lemma fresh_not_running: "\<not> running (state fresh_world)"
  by (simp add: fresh_world_def fresh_state_def BotState_def)

theorem start_stop_idempotent_witness:
  "final (start None True watching_world) = watching_world \<and>
   raised (start None True watching_world) = None \<and>
   price_task (final (start None True watching_world)) = price_task watching_world \<and>
   final (stop True fresh_world) = fresh_world \<and>
   raised (stop True fresh_world) = None"
  using start_stop_idempotent [of watching_world None True fresh_world]
    watching_running fresh_not_running
  by (simp add: returned_def)

section \<open>A failed write in the monitor loop\<close>










section \<open>The bootstrap step with an open position\<close>

lemma upper_btcusdt: "upper ''btcusdt'' = ''BTCUSDT''"
  by (simp add: upper_def upper_char_def char_of_def bit_0)

lemma cleared_state:
  "state cleared_world =
     fresh_state\<lparr>last_reference_price := None, running := True, remaining_budget := 450,
       positions := [(''BTCUSDT'', \<lparr>pos_symbol = ''BTCUSDT'', quantity = 1/2, buy_price = 97,
          highest_price = 97, entry_time = ''12.5''\<rparr>)]\<rparr>"
  by (simp add: cleared_world_def setcoin_def saved_def save_state_def returned_def holding_state
      upper_btcusdt fresh_state_def BotState_def Parameters_def)

lemma reachable_cleared: "reachable cleared_world"
  unfolding cleared_world_def
  by (intro reachable.after reachable_holding) simp

text \<open>
  Claim C4 says that with a position open for the configured symbol every observation
  raises the position's high-water mark to \<open>max highest_price price\<close>, the bootstrap
  step being taken only without a position. The code takes the bootstrap step whenever the
  reference price is unset. In the reachable state after a buy and \<^verbatim>\<open>setcoin btcusdt\<close>
  the position (bought at 97, high-water mark 97) is open and the reference price is unset;
  the observation of the price 120 then only sets the reference price and returns: the
  high-water mark stays 97 and no order is sent, although 120 is above the profit target.
\<close>

theorem bootstrap_skips_open_position:
  "reachable cleared_world \<and>
   map_of (positions (state cleared_world)) (symbol (params (state cleared_world))) =
     Some \<lparr>pos_symbol = ''BTCUSDT'', quantity = 1 / 2, buy_price = 97, highest_price = 97,
           entry_time = ''12.5''\<rparr> \<and>
   last_reference_price (state cleared_world) = None \<and>
   map_of (positions (state (final (on_price demo_env 120 cleared_world))))
       (symbol (params (state cleared_world))) =
     Some \<lparr>pos_symbol = ''BTCUSDT'', quantity = 1 / 2, buy_price = 97, highest_price = 97,
           entry_time = ''12.5''\<rparr> \<and>
   emitted (on_price demo_env 120 cleared_world) = [] \<and>
   last_reference_price (state (final (on_price demo_env 120 cleared_world))) = Some 120"
  by (simp add: reachable_cleared cleared_state on_price_def Let_def save_state_def write_ok_def
      demo_env_def returned_def fresh_state_def BotState_def Parameters_def)

section \<open>Trailing stop\<close>









section \<open>Orders that are not filled\<close>

lemma buy_path_no_fill:
  assumes "no_buy_fill e price w"
  shows "final (buy_path e price ref w) = w \<or>
         (price > ref \<and> \<not> price \<le> ref * (1 - decrease_pct (params (state w))))"
  using assms
  by (auto simp: no_buy_fill_def buy_path_def Let_def raises_def returned_def
      split: prod.splits sum.splits option.splits if_splits)

lemma sell_position_rejected:
  "sell_reply e = Inl ex \<Longrightarrow> final (sell_position e price pos w) = w"
  by (auto simp: sell_position_def market_sell_def raises_def returned_def)

lemma sell_path_rejected:
  assumes "sell_reply e = Inl ex"
  shows "state (final (sell_path e price pos w)) =
           (state w)\<lparr>positions := AList.update (symbol (params (state w)))
              (pos\<lparr>highest_price := max (highest_price pos) price\<rparr>) (positions (state w))\<rparr>"
  using assms
  by (auto simp: sell_path_def Let_def save_state_def raises_def returned_def
        sell_position_rejected
      split: sum.splits)

lemma emitted_sell_path:
  "failing_write e = None \<Longrightarrow>
   emitted (sell_path e price pos w) =
     (if buy_price pos * (1 + increase_pct (params (state w))) \<le> price \<or>
         trailing_stop_hit (params (state w)) pos price
      then [Sell (pos_symbol pos) (quantity pos)] else [])"
  by (auto simp: sell_path_def Let_def save_state_def write_ok_def returned_def
      emitted_sell_position trailing_stop_hit_def high_water_def)

lemma trailing_stop_hit_raised:
  "trailing_stop_hit ps (pos\<lparr>highest_price := max (highest_price pos) price\<rparr>) price =
   trailing_stop_hit ps pos price"
  by (simp add: trailing_stop_hit_def high_water_def)

text \<open>
  Claim C3, as amended. With the reference price set: when the buy trigger fires and the
  buy attempt ends without a fill (no order returned, or an order with no positive
  quantity), the observation leaves the whole bot as it was. When a position is open and
  the exchange raises on the sell order (no order returned), the observation changes the
  state in one place only: the high-water mark of the open position is raised to
  \<open>max highest_price price\<close>; the position stays, and the remaining budget, the
  reference price and the parameters are unchanged, so that in a tick whose writes succeed
  the same observation sends the same sell order again. (The claim as stated, that the
  position map is unchanged after a failed sell, fails: see the counterexample below.)
\<close>

theorem unfilled_order_keeps_state:
  assumes "last_reference_price (state w) = Some ref"
  shows "(map_of (positions (state w)) (symbol (params (state w))) = None \<and>
          price \<le> ref * (1 - decrease_pct (params (state w))) \<and> no_buy_fill e price w \<longrightarrow>
            final (on_price e price w) = w) \<and>
         (map_of (positions (state w)) (symbol (params (state w))) = Some pos \<and>
          sell_reply e = Inl ex \<longrightarrow>
            state (final (on_price e price w)) =
              (state w)\<lparr>positions := AList.update (symbol (params (state w)))
                 (pos\<lparr>highest_price := max (highest_price pos) price\<rparr>) (positions (state w))\<rparr>) \<and>
         (map_of (positions (state w)) (symbol (params (state w))) = Some pos \<and>
          sell_reply e = Inl ex \<and> failing_write e = None \<longrightarrow>
            emitted (on_price e price (final (on_price e price w))) =
            emitted (on_price e price w))"
proof -
  have a: "final (on_price e price w) = w"
    if "map_of (positions (state w)) (symbol (params (state w))) = None"
      and "price \<le> ref * (1 - decrease_pct (params (state w)))" and "no_buy_fill e price w"
    using that assms buy_path_no_fill [of e price w ref]
    by (auto simp: on_price_def Let_def)
  have b: "state (final (on_price e price w)) =
              (state w)\<lparr>positions := AList.update (symbol (params (state w)))
                 (pos\<lparr>highest_price := max (highest_price pos) price\<rparr>) (positions (state w))\<rparr>"
    if "map_of (positions (state w)) (symbol (params (state w))) = Some pos"
      and "sell_reply e = Inl ex"
    using that assms sell_path_rejected [of e ex price pos w]
    by (simp add: on_price_def Let_def)
  have c: "emitted (on_price e price (final (on_price e price w))) =
            emitted (on_price e price w)"
    if p: "map_of (positions (state w)) (symbol (params (state w))) = Some pos"
      and r: "sell_reply e = Inl ex" and f: "failing_write e = None"
  proof -
    have "emitted (on_price e price w) = emitted (sell_path e price pos w)"
      using assms p by (simp add: on_price_def Let_def)
    moreover have "emitted (on_price e price (final (on_price e price w))) =
        emitted (sell_path e price (pos\<lparr>highest_price := max (highest_price pos) price\<rparr>)
          (final (on_price e price w)))"
      using assms by (simp add: on_price_def [of e price "final (on_price e price w)"]
          Let_def b [OF p r] AList.update_conv')
    ultimately show ?thesis
      by (simp add: emitted_sell_path [OF f] b [OF p r] trailing_stop_hit_raised)
  qed
  from a b c show ?thesis by blast
qed

lemma holding_position:
  "map_of (positions (state holding_world)) (symbol (params (state holding_world))) =
     Some \<lparr>pos_symbol = ''BTCUSDT'', quantity = 1 / 2, buy_price = 97, highest_price = 97,
           entry_time = ''12.5''\<rparr>"
  "last_reference_price (state holding_world) = Some 100"
  by (simp_all add: holding_state fresh_state_def BotState_def Parameters_def)

lemma watching_position:
  "map_of (positions (state watching_world)) (symbol (params (state watching_world))) = None"
  "last_reference_price (state watching_world) = Some 100"
  "97 \<le> 100 * (1 - decrease_pct (params (state watching_world)))"
  "no_buy_fill rejecting_env 97 watching_world"
  by (simp_all add: watching_state fresh_state_def BotState_def Parameters_def no_buy_fill_def
      market_buy_def rejecting_env_def demo_env_def round_down_def Let_def)

theorem unfilled_order_keeps_state_witness:
  "final (on_price rejecting_env 97 watching_world) = watching_world \<and>
   remaining_budget (state (final (on_price rejecting_env 100 holding_world))) = 450 \<and>
   last_reference_price (state (final (on_price rejecting_env 100 holding_world))) = Some 100 \<and>
   map_of (positions (state (final (on_price rejecting_env 100 holding_world)))) ''BTCUSDT'' =
     Some \<lparr>pos_symbol = ''BTCUSDT'', quantity = 1 / 2, buy_price = 97, highest_price = 100,
           entry_time = ''12.5''\<rparr> \<and>
   emitted (on_price rejecting_env 100 (final (on_price rejecting_env 100 holding_world))) =
     emitted (on_price rejecting_env 100 holding_world)"
proof -
  have r: "sell_reply rejecting_env = Inl BinanceAPIException"
    and f: "failing_write rejecting_env = None"
    by (simp_all add: rejecting_env_def demo_env_def)
  from unfilled_order_keeps_state [OF watching_position(2), of 97 rejecting_env] watching_position
  have a: "final (on_price rejecting_env 97 watching_world) = watching_world"
    by simp
  from unfilled_order_keeps_state [OF holding_position(2), of 100 rejecting_env _ BinanceAPIException]
    holding_position(1) r f
  show ?thesis
    by (simp add: a holding_state fresh_state_def BotState_def Parameters_def)
qed

theorem failed_sell_changes_position_counterexample:
  "sell_reply rejecting_env = Inl BinanceAPIException \<and>
   raised (on_price rejecting_env 100 holding_world) = None \<and>
   emitted (on_price rejecting_env 100 holding_world) = [Sell ''BTCUSDT'' (1 / 2)] \<and>
   positions (state holding_world) =
     [(''BTCUSDT'', \<lparr>pos_symbol = ''BTCUSDT'', quantity = 1 / 2, buy_price = 97,
         highest_price = 97, entry_time = ''12.5''\<rparr>)] \<and>
   positions (state (final (on_price rejecting_env 100 holding_world))) =
     [(''BTCUSDT'', \<lparr>pos_symbol = ''BTCUSDT'', quantity = 1 / 2, buy_price = 97,
         highest_price = 100, entry_time = ''12.5''\<rparr>)] \<and>
   positions (state (final (on_price rejecting_env 100 holding_world))) \<noteq>
     positions (state holding_world)"
  by (simp add: holding_state fresh_state_def BotState_def Parameters_def on_price_def
      sell_path_def sell_position_def market_sell_def Let_def save_state_def write_ok_def
      rejecting_env_def demo_env_def raises_def returned_def)

lemma zero_quantity_sell_closes_position:
  "sell_reply idle_env = Inr \<lparr>fills = None, executedQty = Some 0, cummulativeQuoteQty = Some 0\<rparr> \<and>
   positions (state (final (on_price idle_env 100 holding_world))) = [] \<and>
   last_reference_price (state (final (on_price idle_env 100 holding_world))) = Some 100"
  by (simp add: holding_state fresh_state_def BotState_def Parameters_def on_price_def
      sell_path_def sell_position_def market_sell_def close_position_def Let_def save_state_def
      write_ok_def idle_env_def demo_env_def raises_def returned_def)

section \<open>Budget invariant\<close>












end
